theory Spec2Isabelle
  imports Main "HOL-Library.Word"
begin

section \<open>Data model\<close>

text \<open>
  The package \<^verbatim>\<open>miniflag\<close> (file \<^verbatim>\<open>flag.go\<close>) wraps the flag package of the Go
  standard library. Go values that are shared through pointers live in an explicit store:
  value variables bound to flags, \<^verbatim>\<open>flag.FlagSet\<close> objects, \<^verbatim>\<open>miniflag.FlagSet\<close>
  structs and the backing arrays of \<^verbatim>\<open>[]flagInfo\<close> slices each have their own address space.
\<close>

datatype ErrorHandling = ContinueOnError | ExitOnError | PanicOnError

record flagInfo =
  Longhand :: string
  Shorthand :: string
  UsageValue :: string
  Usage :: string

text \<open>The dynamic type of a default value, as the type switch of \<^verbatim>\<open>defineFlag\<close> sees it.
  \<open>VCustom\<close> is a value of any other type \<^verbatim>\<open>T\<close>, \<open>VNil\<close> the nil interface value.\<close>

datatype kind = KBool | KString | KInt | KInt64 | KUint | KUint64 | KFloat64 | KDuration | KCustom

datatype 'c val =
    VBool bool
  | VString string
  | VInt int
  | VInt64 int
  | VUint nat
  | VUint64 nat
  | VFloat64 "64 word"
  | VDuration int
  | VCustom 'c
  | VNil

text \<open>\<^verbatim>\<open>flag.Flag\<close>: the field \<open>FValue\<close> is the typed pointer behind the \<^verbatim>\<open>Value\<close>
  interface (the kind of the pointee and the address of the variable). The textual default
  \<^verbatim>\<open>DefValue\<close> is not kept: no code of the package reads it.\<close>

record Flag =
  FName :: string
  FUsage :: string
  FValue :: "kind \<times> nat"

text \<open>\<^verbatim>\<open>flag.FlagSet\<close> of the standard library (the fields the package reaches).\<close>

record StdFlagSet =
  fsName :: string
  errorHandling :: ErrorHandling
  formal :: "string \<rightharpoonup> Flag"
  actual :: "string \<rightharpoonup> Flag"
  fargs :: "string list"
  parsed :: bool

text \<open>A Go slice header: backing array, length, capacity.\<close>

record slice =
  sarr :: nat
  slen :: nat
  scap :: nat

text \<open>\<^verbatim>\<open>miniflag.FlagSet[T]\<close>: the embedded \<^verbatim>\<open>*flag.FlagSet\<close> and the \<^verbatim>\<open>flags\<close> slice.\<close>

record FlagSet =
  std :: nat
  flags :: slice

text \<open>
  What the package takes from outside: the standard library's decoders behind
  \<^verbatim>\<open>Value.Set\<close> for the numeric kinds (each returns the value it stores and whether it
  accepted the token), the methods of a user-supplied type, the runtime's capacity growth of
  \<^verbatim>\<open>append\<close>, and \<^verbatim>\<open>utf8.RuneCountInString\<close>, which \<^verbatim>\<open>fmt\<close> pads by.
\<close>

record 'c env =
  parseInt :: "string \<Rightarrow> int \<times> bool"
  parseInt64 :: "string \<Rightarrow> int \<times> bool"
  parseUint :: "string \<Rightarrow> nat \<times> bool"
  parseUint64 :: "string \<Rightarrow> nat \<times> bool"
  parseFloat :: "string \<Rightarrow> 64 word \<times> bool"
  parseDuration :: "string \<Rightarrow> int \<times> bool"
  customValue :: "'c \<Rightarrow> bool"
  customSet :: "'c \<Rightarrow> string \<Rightarrow> 'c \<times> bool"
  customIsBoolFlag :: "'c \<Rightarrow> bool"
  customKindBool :: "'c \<Rightarrow> bool"
  growCap :: "nat \<Rightarrow> nat"
  runeCount :: "string \<Rightarrow> nat"

text \<open>The store. \<open>flagSets\<close> is the package-level map of the same name; it holds
  \<^verbatim>\<open>FlagSet\<close> structs by value.\<close>

record 'c world =
  cells :: "nat \<Rightarrow> 'c val"
  ncells :: nat
  stdsets :: "nat \<Rightarrow> StdFlagSet"
  nstd :: nat
  fsets :: "nat \<Rightarrow> FlagSet"
  nfsets :: nat
  arrays :: "nat \<Rightarrow> nat \<Rightarrow> flagInfo"
  narrays :: nat
  flagSets :: "string \<rightharpoonup> FlagSet"

text \<open>Errors of \<^verbatim>\<open>FlagSet.Parse\<close>, panics, and how a call ends. Every operation returns
  the store it leaves behind together with its outcome, so the effects made before a panic
  stay visible.\<close>

datatype perr =
    ErrHelp
  | BadSyntax string
  | NotDefined string
  | InvalidBoolValue string string
  | InvalidBoolFlag string
  | NeedsArgument string
  | InvalidValue string string

datatype panic =
    FlagRedefined string
  | FlagBeginsDash string
  | FlagContainsEq string
  | NotAValue
  | IndexOutOfRange
  | ParseFailed perr

datatype 'a res = Ok 'a | Panic panic | Exit int

definition bindR :: "'w \<times> 'a res \<Rightarrow> ('w \<Rightarrow> 'a \<Rightarrow> 'w \<times> 'b res) \<Rightarrow> 'w \<times> 'b res" where
  "bindR m k = (case m of
      (w, Ok x) \<Rightarrow> k w x
    | (w, Panic p) \<Rightarrow> (w, Panic p)
    | (w, Exit c) \<Rightarrow> (w, Exit c))"

section \<open>The standard library's flag set\<close>

text \<open>\<^verbatim>\<open>strconv.ParseBool\<close>: the value and whether the token was accepted.\<close>

definition ParseBool :: "string \<Rightarrow> bool \<times> bool" where
  "ParseBool s =
     (if s \<in> {''1'', ''t'', ''T'', ''TRUE'', ''true'', ''True''} then (True, True)
      else if s \<in> {''0'', ''f'', ''F'', ''FALSE'', ''false'', ''False''} then (False, True)
      else (False, False))"

text \<open>\<^verbatim>\<open>Value.Set\<close> on a variable of kind \<open>k\<close> holding \<open>cur\<close>: the value the variable holds
  afterwards and whether \<^verbatim>\<open>Set\<close> returned no error. The standard library's setters store
  the decoder's result also when it reports an error.\<close>

definition setValue :: "'c env \<Rightarrow> kind \<Rightarrow> 'c val \<Rightarrow> string \<Rightarrow> 'c val \<times> bool" where
  "setValue env k cur s =
     (case k of
        KBool \<Rightarrow> (case ParseBool s of (v, ok) \<Rightarrow> (VBool v, ok))
      | KString \<Rightarrow> (VString s, True)
      | KInt \<Rightarrow> (case parseInt env s of (v, ok) \<Rightarrow> (VInt v, ok))
      | KInt64 \<Rightarrow> (case parseInt64 env s of (v, ok) \<Rightarrow> (VInt64 v, ok))
      | KUint \<Rightarrow> (case parseUint env s of (v, ok) \<Rightarrow> (VUint v, ok))
      | KUint64 \<Rightarrow> (case parseUint64 env s of (v, ok) \<Rightarrow> (VUint64 v, ok))
      | KFloat64 \<Rightarrow> (case parseFloat env s of (v, ok) \<Rightarrow> (VFloat64 v, ok))
      | KDuration \<Rightarrow> (case parseDuration env s of (v, ok) \<Rightarrow> (VDuration v, ok))
      | KCustom \<Rightarrow>
          (case cur of
             VCustom c \<Rightarrow> (case customSet env c s of (c', ok) \<Rightarrow> (VCustom c', ok))
           | _ \<Rightarrow> (cur, False)))"

text \<open>\<^verbatim>\<open>flag.Value.(boolFlag)\<close> with \<^verbatim>\<open>IsBoolFlag()\<close>, and
  \<^verbatim>\<open>reflect.TypeOf(f.Value).Elem().Kind() == reflect.Bool\<close>.\<close>

definition isBoolFlag :: "'c env \<Rightarrow> kind \<Rightarrow> 'c val \<Rightarrow> bool" where
  "isBoolFlag env k cur =
     (case k of
        KBool \<Rightarrow> True
      | KCustom \<Rightarrow> (case cur of VCustom c \<Rightarrow> customIsBoolFlag env c | _ \<Rightarrow> False)
      | _ \<Rightarrow> False)"

definition kindIsBool :: "'c env \<Rightarrow> kind \<Rightarrow> 'c val \<Rightarrow> bool" where
  "kindIsBool env k cur =
     (case k of
        KBool \<Rightarrow> True
      | KCustom \<Rightarrow> (case cur of VCustom c \<Rightarrow> customKindBool env c | _ \<Rightarrow> False)
      | _ \<Rightarrow> False)"

text \<open>\<^verbatim>\<open>(*flag.FlagSet).Var\<close>: a name that begins with a dash, contains an equals sign or
  is already defined panics.\<close>

definition Var :: "StdFlagSet \<Rightarrow> kind \<times> nat \<Rightarrow> string \<Rightarrow> string \<Rightarrow> StdFlagSet res" where
  "Var f v name usage =
     (if take 1 name = ''-'' then Panic (FlagBeginsDash name)
      else if CHR ''='' \<in> set name then Panic (FlagContainsEq name)
      else if name \<in> dom (formal f) then Panic (FlagRedefined name)
      else Ok (f\<lparr>formal := (formal f)(name \<mapsto> \<lparr>FName = name, FUsage = usage, FValue = v\<rparr>)\<rparr>))"

definition FlagSet_Var :: "'c world \<Rightarrow> nat \<Rightarrow> kind \<times> nat \<Rightarrow> string \<Rightarrow> string \<Rightarrow> 'c world \<times> unit res" where
  "FlagSet_Var w p v name usage =
     (case Var (stdsets w p) v name usage of
        Ok f' \<Rightarrow> (w\<lparr>stdsets := (stdsets w)(p := f')\<rparr>, Ok ())
      | Panic m \<Rightarrow> (w, Panic m)
      | Exit c \<Rightarrow> (w, Exit c))"

text \<open>\<^verbatim>\<open>BoolVar\<close>, \<^verbatim>\<open>StringVar\<close>, \<^verbatim>\<open>IntVar\<close> and the like: store the default through the
  pointer, then \<^verbatim>\<open>Var\<close>.\<close>

definition FlagSet_TypedVar ::
  "'c world \<Rightarrow> nat \<Rightarrow> kind \<times> nat \<Rightarrow> string \<Rightarrow> 'c val \<Rightarrow> string \<Rightarrow> 'c world \<times> unit res" where
  "FlagSet_TypedVar w p v name dflt usage =
     FlagSet_Var (w\<lparr>cells := (cells w)(snd v := dflt)\<rparr>) p v name usage"

definition FlagSet_Lookup :: "'c world \<Rightarrow> nat \<Rightarrow> string \<Rightarrow> Flag option" where
  "FlagSet_Lookup w p name = formal (stdsets w p) name"

definition FlagSet_Args :: "'c world \<Rightarrow> nat \<Rightarrow> string list" where
  "FlagSet_Args w p = fargs (stdsets w p)"

text \<open>The part of \<^verbatim>\<open>parseOne\<close> that cuts \<^verbatim>\<open>name=value\<close> at the first equals sign after
  the first character.\<close>

definition splitEq :: "string \<Rightarrow> string \<times> bool \<times> string" where
  "splitEq name =
     (case name of
        [] \<Rightarrow> ([], False, [])
      | c # r \<Rightarrow>
          (if CHR ''='' \<in> set r
           then (c # takeWhile (\<lambda>x. x \<noteq> CHR ''='') r, True, tl (dropWhile (\<lambda>x. x \<noteq> CHR ''='') r))
           else (name, False, [])))"

text \<open>The flag name a token stands for when \<^verbatim>\<open>parseOne\<close> meets it as a flag marker:
  one or two leading dashes, then the name up to an equals sign.\<close>

definition tokenFlag :: "string \<Rightarrow> string option" where
  "tokenFlag s =
     (if length s < 2 \<or> hd s \<noteq> CHR ''-'' then None
      else if s = ''--'' then None
      else if drop (if s ! 1 = CHR ''-'' then 2 else 1) s = [] then None
      else if hd (drop (if s ! 1 = CHR ''-'' then 2 else 1) s) \<in> {CHR ''-'', CHR ''=''} then None
      else Some (fst (splitEq (drop (if s ! 1 = CHR ''-'' then 2 else 1) s))))"

text \<open>\<^verbatim>\<open>parseOne\<close>: the variables, the flag set, whether a flag was seen, the error.
  The messages written to the output sink are left out.\<close>

definition parseOne ::
  "'c env \<Rightarrow> (nat \<Rightarrow> 'c val) \<Rightarrow> StdFlagSet \<Rightarrow> (nat \<Rightarrow> 'c val) \<times> StdFlagSet \<times> bool \<times> perr option" where
  "parseOne env cs f =
     (case fargs f of
        [] \<Rightarrow> (cs, f, False, None)
      | s # rest \<Rightarrow>
          if length s < 2 \<or> hd s \<noteq> CHR ''-'' then (cs, f, False, None)
          else if s = ''--'' then (cs, f\<lparr>fargs := rest\<rparr>, False, None)
          else
            (case tokenFlag s of
               None \<Rightarrow> (cs, f, False, Some (BadSyntax s))
             | Some name \<Rightarrow>
                 (let f1 = f\<lparr>fargs := rest\<rparr>;
                      hasValue = fst (snd (splitEq (drop (if s ! 1 = CHR ''-'' then 2 else 1) s)));
                      value = snd (snd (splitEq (drop (if s ! 1 = CHR ''-'' then 2 else 1) s)))
                  in case formal f1 name of
                       None \<Rightarrow>
                         if name = ''help'' \<or> name = ''h'' then (cs, f1, False, Some ErrHelp)
                         else (cs, f1, False, Some (NotDefined name))
                     | Some flag \<Rightarrow>
                         (case FValue flag of (k, a) \<Rightarrow>
                            if isBoolFlag env k (cs a) then
                              (case setValue env k (cs a) (if hasValue then value else ''true'') of
                                 (v, ok) \<Rightarrow>
                                   if ok then (cs(a := v), f1\<lparr>actual := (actual f1)(name \<mapsto> flag)\<rparr>, True, None)
                                   else (cs(a := v), f1, False,
                                         Some (if hasValue then InvalidBoolValue value name
                                               else InvalidBoolFlag name)))
                            else
                              (case (if hasValue then Some (value, rest)
                                     else (case rest of [] \<Rightarrow> None | x # rest' \<Rightarrow> Some (x, rest'))) of
                                 None \<Rightarrow> (cs, f1, False, Some (NeedsArgument name))
                               | Some (value', rest2) \<Rightarrow>
                                   (case setValue env k (cs a) value' of
                                      (v, ok) \<Rightarrow>
                                        if ok then
                                          (cs(a := v),
                                           f1\<lparr>fargs := rest2, actual := (actual f1)(name \<mapsto> flag)\<rparr>,
                                           True, None)
                                        else (cs(a := v), f1\<lparr>fargs := rest2\<rparr>, False,
                                              Some (InvalidValue value' name))))))))"

text \<open>The loop of \<^verbatim>\<open>Parse\<close>: one flag at a time until none is seen.\<close>

function parseLoop ::
  "'c env \<Rightarrow> (nat \<Rightarrow> 'c val) \<Rightarrow> StdFlagSet \<Rightarrow> (nat \<Rightarrow> 'c val) \<times> StdFlagSet \<times> perr option" where
  "parseLoop env cs f =
     (case parseOne env cs f of
        (cs', f', seen, err) \<Rightarrow> if seen then parseLoop env cs' f' else (cs', f', err))"
  by pat_completeness auto
termination
  by (relation "measure (\<lambda>(env, cs, f). length (fargs f))")
     (auto simp: parseOne_def Let_def split: list.splits option.splits if_splits prod.splits)

declare parseLoop.simps [simp del]

text \<open>\<^verbatim>\<open>(*flag.FlagSet).Parse\<close>: the error policy decides how a failure ends the call.\<close>

definition stdParse ::
  "'c env \<Rightarrow> (nat \<Rightarrow> 'c val) \<Rightarrow> StdFlagSet \<Rightarrow> string list
     \<Rightarrow> (nat \<Rightarrow> 'c val) \<times> StdFlagSet \<times> perr option res" where
  "stdParse env cs f arguments =
     (case parseLoop env cs (f\<lparr>fargs := arguments, parsed := True\<rparr>) of
        (cs', f', err) \<Rightarrow>
          (cs', f',
           case err of
             None \<Rightarrow> Ok None
           | Some e \<Rightarrow>
               (case errorHandling f' of
                  ContinueOnError \<Rightarrow> Ok (Some e)
                | ExitOnError \<Rightarrow> Exit (if e = ErrHelp then 0 else 2)
                | PanicOnError \<Rightarrow> Panic (ParseFailed e))))"

definition FlagSet_Parse ::
  "'c env \<Rightarrow> 'c world \<Rightarrow> nat \<Rightarrow> string list \<Rightarrow> 'c world \<times> perr option res" where
  "FlagSet_Parse env w p arguments =
     (case stdParse env (cells w) (stdsets w p) arguments of
        (cs', f', r) \<Rightarrow> (w\<lparr>cells := cs', stdsets := (stdsets w)(p := f')\<rparr>, r))"

section \<open>The package miniflag\<close>

subsection \<open>Package-level variables and registries\<close>

definition zeroInfo :: flagInfo where
  "zeroInfo = \<lparr>Longhand = [], Shorthand = [], UsageValue = [], Usage = []\<rparr>"

text \<open>\<^verbatim>\<open>flagInfoSlice = make([]flagInfo, 0, 32)\<close>: its backing array has address 0.\<close>

definition flagInfoSlice :: slice where
  "flagInfoSlice = \<lparr>sarr = 0, slen = 0, scap = 32\<rparr>"

definition emptyStd :: StdFlagSet where
  "emptyStd = \<lparr>fsName = [], errorHandling = ContinueOnError, formal = Map.empty,
               actual = Map.empty, fargs = [], parsed = False\<rparr>"

text \<open>The store once \<^verbatim>\<open>flagSets\<close> and \<^verbatim>\<open>flagInfoSlice\<close> are initialised and before
  \<^verbatim>\<open>CommandLine\<close> is.\<close>

definition emptyWorld :: "'c world" where
  "emptyWorld =
     \<lparr>cells = (\<lambda>_. VNil), ncells = 0,
      stdsets = (\<lambda>_. emptyStd), nstd = 0,
      fsets = (\<lambda>_. \<lparr>std = 0, flags = \<lparr>sarr = 0, slen = 0, scap = 0\<rparr>\<rparr>), nfsets = 0,
      arrays = (\<lambda>_ _. zeroInfo), narrays = 1,
      flagSets = Map.empty\<rparr>"

text \<open>\<^verbatim>\<open>NewFlagSet\<close> returns the address of the new \<^verbatim>\<open>FlagSet\<close> struct; the map
  \<^verbatim>\<open>flagSets\<close> receives a copy of the struct.\<close>

definition NewFlagSet :: "'c world \<Rightarrow> string \<Rightarrow> ErrorHandling \<Rightarrow> 'c world \<times> nat" where
  "NewFlagSet w name eh =
     (let p = nstd w;
          q = nfsets w;
          fs = \<lparr>std = p, flags = flagInfoSlice\<rparr>
      in (w\<lparr>stdsets := (stdsets w)(p := \<lparr>fsName = name, errorHandling = eh, formal = Map.empty,
                                           actual = Map.empty, fargs = [], parsed = False\<rparr>),
             nstd := p + 1,
             fsets := (fsets w)(q := fs),
             nfsets := q + 1,
             flagSets := (flagSets w)(name \<mapsto> fs)\<rparr>, q))"

text \<open>\<^verbatim>\<open>CommandLine = NewFlagSet(os.Args[0], ExitOnError)\<close>.\<close>

definition packageInit :: "string \<Rightarrow> 'c world \<times> nat" where
  "packageInit progname = NewFlagSet emptyWorld progname ExitOnError"

subsection \<open>Descriptors\<close>

text \<open>The elements a slice shows: the first \<open>slen\<close> elements of its backing array.\<close>

definition sliceElems :: "'c world \<Rightarrow> slice \<Rightarrow> flagInfo list" where
  "sliceElems w s = map (arrays w (sarr s)) [0..<slen s]"

text \<open>Go's \<^verbatim>\<open>append\<close> of one element: in place while the capacity lasts, into a fresh
  array otherwise.\<close>

definition appendInfo :: "'c env \<Rightarrow> 'c world \<Rightarrow> slice \<Rightarrow> flagInfo \<Rightarrow> 'c world \<times> slice" where
  "appendInfo env w s x =
     (if slen s < scap s then
        (w\<lparr>arrays := (arrays w)(sarr s := (arrays w (sarr s))(slen s := x))\<rparr>,
         s\<lparr>slen := slen s + 1\<rparr>)
      else
        (w\<lparr>arrays := (arrays w)(narrays w :=
               (\<lambda>i. if i < slen s then arrays w (sarr s) i else if i = slen s then x else zeroInfo)),
            narrays := narrays w + 1\<rparr>,
         \<lparr>sarr = narrays w, slen = slen s + 1, scap = max (slen s + 1) (growCap env (scap s))\<rparr>))"

function extractLoop :: "string \<Rightarrow> nat \<Rightarrow> nat \<Rightarrow> string" where
  "extractLoop s i pos =
     (if i < length s then
        (if s ! i = CHR 0x60 then
           (if pos = 0 then extractLoop s (i + 1) (i + 1)
            else take (i - pos) (drop pos s))
         else extractLoop s (i + 1) pos)
      else [])"
  by pat_completeness auto
termination
  by (relation "measure (\<lambda>(s, i, pos). length s - i)") auto

declare extractLoop.simps [simp del]

definition extractUsageValue :: "string \<Rightarrow> string" where
  "extractUsageValue s = extractLoop s 0 0"

text \<open>\<^verbatim>\<open>defineUsage(&fs.flags, name, shorthand, usage)\<close>: the pointer to the slice is the
  address \<open>fs\<close> of the struct that holds it.\<close>

definition defineUsage :: "'c env \<Rightarrow> 'c world \<Rightarrow> nat \<Rightarrow> string \<Rightarrow> string \<Rightarrow> string \<Rightarrow> 'c world" where
  "defineUsage env w fs name shorthand usage =
     (let shorthand' = (if length name = 1 then name else shorthand);
          name' = (if length name = 1 then [] else name)
      in case appendInfo env w (flags (fsets w fs))
                \<lparr>Longhand = name', Shorthand = shorthand',
                 UsageValue = extractUsageValue usage, Usage = usage\<rparr> of
           (w', sl) \<Rightarrow> w'\<lparr>fsets := (fsets w')(fs := (fsets w' fs)\<lparr>flags := sl\<rparr>)\<rparr>)"

subsection \<open>Definition of flags\<close>

text \<open>\<^verbatim>\<open>boolVar\<close>, \<^verbatim>\<open>stringVar\<close>, \<^verbatim>\<open>intVar\<close>, \<^verbatim>\<open>int64Var\<close>, \<^verbatim>\<open>uintVar\<close>, \<^verbatim>\<open>uint64Var\<close>,
  \<^verbatim>\<open>float64Var\<close> and \<^verbatim>\<open>durationVar\<close> have one body: the parameter \<^verbatim>\<open>value\<close> is a fresh
  variable, its address \<^verbatim>\<open>&value\<close> is bound under the name, then under the shorthand when
  there is one, and returned.\<close>

definition typedVar ::
  "'c world \<Rightarrow> nat \<Rightarrow> kind \<Rightarrow> string \<Rightarrow> string \<Rightarrow> 'c val \<Rightarrow> string \<Rightarrow> 'c world \<times> nat res" where
  "typedVar w fs k name shorthand v usage =
     (let a = ncells w;
          w0 = w\<lparr>cells := (cells w)(a := v), ncells := a + 1\<rparr>
      in bindR (FlagSet_TypedVar w0 (std (fsets w0 fs)) (k, a) name (cells w0 a) usage)
           (\<lambda>w1 _.
              if shorthand \<noteq> [] then
                bindR (FlagSet_TypedVar w1 (std (fsets w1 fs)) (k, a) shorthand (cells w1 a) usage)
                  (\<lambda>w2 _. (w2, Ok a))
              else (w1, Ok a)))"

definition boolVar :: "'c world \<Rightarrow> nat \<Rightarrow> string \<Rightarrow> string \<Rightarrow> bool \<Rightarrow> string \<Rightarrow> 'c world \<times> nat res" where
  "boolVar w fs name shorthand v usage = typedVar w fs KBool name shorthand (VBool v) usage"

definition stringVar :: "'c world \<Rightarrow> nat \<Rightarrow> string \<Rightarrow> string \<Rightarrow> string \<Rightarrow> string \<Rightarrow> 'c world \<times> nat res" where
  "stringVar w fs name shorthand v usage = typedVar w fs KString name shorthand (VString v) usage"

definition intVar :: "'c world \<Rightarrow> nat \<Rightarrow> string \<Rightarrow> string \<Rightarrow> int \<Rightarrow> string \<Rightarrow> 'c world \<times> nat res" where
  "intVar w fs name shorthand v usage = typedVar w fs KInt name shorthand (VInt v) usage"

definition int64Var :: "'c world \<Rightarrow> nat \<Rightarrow> string \<Rightarrow> string \<Rightarrow> int \<Rightarrow> string \<Rightarrow> 'c world \<times> nat res" where
  "int64Var w fs name shorthand v usage = typedVar w fs KInt64 name shorthand (VInt64 v) usage"

definition uintVar :: "'c world \<Rightarrow> nat \<Rightarrow> string \<Rightarrow> string \<Rightarrow> nat \<Rightarrow> string \<Rightarrow> 'c world \<times> nat res" where
  "uintVar w fs name shorthand v usage = typedVar w fs KUint name shorthand (VUint v) usage"

definition uint64Var :: "'c world \<Rightarrow> nat \<Rightarrow> string \<Rightarrow> string \<Rightarrow> nat \<Rightarrow> string \<Rightarrow> 'c world \<times> nat res" where
  "uint64Var w fs name shorthand v usage = typedVar w fs KUint64 name shorthand (VUint64 v) usage"

definition float64Var ::
  "'c world \<Rightarrow> nat \<Rightarrow> string \<Rightarrow> string \<Rightarrow> 64 word \<Rightarrow> string \<Rightarrow> 'c world \<times> nat res" where
  "float64Var w fs name shorthand v usage = typedVar w fs KFloat64 name shorthand (VFloat64 v) usage"

definition durationVar :: "'c world \<Rightarrow> nat \<Rightarrow> string \<Rightarrow> string \<Rightarrow> int \<Rightarrow> string \<Rightarrow> 'c world \<times> nat res" where
  "durationVar w fs name shorthand v usage = typedVar w fs KDuration name shorthand (VDuration v) usage"

text \<open>\<^verbatim>\<open>valueVar\<close>: the type assertion \<^verbatim>\<open>any(&value).(flag.Value)\<close> panics when the pointer
  type has no \<^verbatim>\<open>Set\<close> and \<^verbatim>\<open>String\<close>; \<^verbatim>\<open>fs.Var\<close> stores nothing through the pointer.\<close>

definition valueVar ::
  "'c env \<Rightarrow> 'c world \<Rightarrow> nat \<Rightarrow> string \<Rightarrow> string \<Rightarrow> 'c \<Rightarrow> string \<Rightarrow> 'c world \<times> nat res" where
  "valueVar env w fs name shorthand v usage =
     (let a = ncells w;
          w0 = w\<lparr>cells := (cells w)(a := VCustom v), ncells := a + 1\<rparr>
      in if customValue env v then
           bindR (FlagSet_Var w0 (std (fsets w0 fs)) (KCustom, a) name usage)
             (\<lambda>w1 _.
                if shorthand \<noteq> [] then
                  bindR (FlagSet_Var w1 (std (fsets w1 fs)) (KCustom, a) shorthand usage)
                    (\<lambda>w2 _. (w2, Ok a))
                else (w1, Ok a))
         else (w0, Panic NotAValue))"

text \<open>\<^verbatim>\<open>defineFlag\<close>: the result is the returned pointer, \<open>None\<close> for \<^verbatim>\<open>nil\<close>.\<close>

definition somePtr :: "'w \<times> nat res \<Rightarrow> 'w \<times> nat option res" where
  "somePtr m = bindR m (\<lambda>w a. (w, Ok (Some a)))"

definition defineFlag ::
  "'c env \<Rightarrow> 'c world \<Rightarrow> nat \<Rightarrow> string \<Rightarrow> string \<Rightarrow> 'c val \<Rightarrow> string \<Rightarrow> 'c world \<times> nat option res" where
  "defineFlag env w fs name shorthand v usage =
     (let shorthand' = (if name = shorthand then [] else shorthand);
          w1 = defineUsage env w fs name shorthand' usage
      in case v of
           VBool b \<Rightarrow> somePtr (boolVar w1 fs name shorthand' b usage)
         | VString x \<Rightarrow> somePtr (stringVar w1 fs name shorthand' x usage)
         | VInt x \<Rightarrow> somePtr (intVar w1 fs name shorthand' x usage)
         | VInt64 x \<Rightarrow> somePtr (int64Var w1 fs name shorthand' x usage)
         | VUint x \<Rightarrow> somePtr (uintVar w1 fs name shorthand' x usage)
         | VUint64 x \<Rightarrow> somePtr (uint64Var w1 fs name shorthand' x usage)
         | VFloat64 x \<Rightarrow> somePtr (float64Var w1 fs name shorthand' x usage)
         | VDuration x \<Rightarrow> somePtr (durationVar w1 fs name shorthand' x usage)
         | VCustom c \<Rightarrow> somePtr (valueVar env w1 fs name shorthand' c usage)
         | VNil \<Rightarrow> (w1, Ok None))"

definition SetFlag ::
  "'c env \<Rightarrow> 'c world \<Rightarrow> nat \<Rightarrow> string \<Rightarrow> string \<Rightarrow> 'c val \<Rightarrow> string \<Rightarrow> 'c world \<times> nat option res" where
  "SetFlag env w fs name shorthand v usage = defineFlag env w fs name shorthand v usage"

subsection \<open>Parsing and positional arguments\<close>

text \<open>\<^verbatim>\<open>parse\<close>: \<^verbatim>\<open>f.Parse\<close> on the copy found in \<^verbatim>\<open>flagSets\<close> reaches the
  \<^verbatim>\<open>flag.FlagSet\<close> the copy points to.\<close>

definition parse :: "'c env \<Rightarrow> 'c world \<Rightarrow> nat \<Rightarrow> string list \<Rightarrow> 'c world \<times> perr option res" where
  "parse env w fs args =
     (if length args > 1 then
        (case flagSets w (hd args) of
           Some f \<Rightarrow> FlagSet_Parse env w (std f) (tl args)
         | None \<Rightarrow> FlagSet_Parse env w (std (fsets w fs)) args)
      else FlagSet_Parse env w (std (fsets w fs)) args)"

text \<open>\<^verbatim>\<open>strings.ReplaceAll(s, "-", "")\<close>.\<close>

definition removeDashes :: "string \<Rightarrow> string" where
  "removeDashes s = filter (\<lambda>c. c \<noteq> CHR ''-'') s"

text \<open>The loop of \<^verbatim>\<open>args\<close> from index \<open>i\<close> on. Indexing the empty string panics.\<close>

function argsLoop ::
  "'c env \<Rightarrow> 'c world \<Rightarrow> nat \<Rightarrow> string list \<Rightarrow> nat \<Rightarrow> string list \<Rightarrow> string list res" where
  "argsLoop env w p args i pArgs =
     (if i < length args then
        (if args ! i = [] then argsLoop env w p args (i + 1) (pArgs @ [args ! i])
         else if hd (args ! i) = CHR ''-'' then argsLoop env w p args (i + 1) pArgs
         else if i > 0 then
           (if args ! (i - 1) = [] then Panic IndexOutOfRange
            else if hd (args ! (i - 1)) = CHR ''-'' then
              (case FlagSet_Lookup w p (removeDashes (args ! (i - 1))) of
                 None \<Rightarrow> argsLoop env w p args (i + 1) (pArgs @ [args ! i])
               | Some f \<Rightarrow>
                   if kindIsBool env (fst (FValue f)) (cells w (snd (FValue f)))
                   then argsLoop env w p args (i + 1) (pArgs @ [args ! i])
                   else argsLoop env w p args (i + 1) pArgs)
            else argsLoop env w p args (i + 1) (pArgs @ [args ! i]))
         else argsLoop env w p args (i + 1) (pArgs @ [args ! i]))
      else Ok pArgs)"
  by pat_completeness auto
termination
  by (relation "measure (\<lambda>(env, w, p, args, i, pArgs). length args - i)") auto

declare argsLoop.simps [simp del]

definition args :: "'c env \<Rightarrow> 'c world \<Rightarrow> nat \<Rightarrow> string list res" where
  "args env w fs =
     argsLoop env w (std (fsets w fs)) (FlagSet_Args w (std (fsets w fs))) 0 []"

subsection \<open>Usage text\<close>

text \<open>The verb \<^verbatim>\<open>%*s\<close> of \<^verbatim>\<open>fmt\<close>: pad to the width on the left, on the right for a
  negative width; a width beyond a million in size is refused.\<close>

definition fmtWidth :: "'c env \<Rightarrow> int \<Rightarrow> string \<Rightarrow> string" where
  "fmtWidth env wid s =
     (if wid > 1000000 \<or> wid < - 1000000 then ''%!(BADWIDTH)'' @ s
      else if wid < 0 then s @ replicate (nat (- wid) - runeCount env s) (CHR '' '')
      else replicate (nat wid - runeCount env s) (CHR '' '') @ s)"

text \<open>The builder \<^verbatim>\<open>c\<close> of \<^verbatim>\<open>usageFn\<close>.\<close>

definition compound :: "flagInfo \<Rightarrow> string" where
  "compound f =
     (if Shorthand f \<noteq> [] then ''-'' @ Shorthand f else [])
     @ (if Longhand f \<noteq> [] then (if Shorthand f \<noteq> [] then '' '' else []) @ ''--'' @ Longhand f
        else [])"

text \<open>The loop of \<^verbatim>\<open>usageFn\<close> over \<^verbatim>\<open>fs.flags\<close> from index \<open>i\<close> on, with the builders
  \<^verbatim>\<open>s\<close> and \<^verbatim>\<open>u\<close>; \<open>p\<close> is the length of \<^verbatim>\<open>s\<close> before the loop.\<close>

fun usageLoop :: "'c env \<Rightarrow> nat \<Rightarrow> nat \<Rightarrow> flagInfo list \<Rightarrow> string \<times> string \<Rightarrow> string \<times> string" where
  "usageLoop env p i [] (s, u) = (s, u)"
| "usageLoop env p i (f # fl) (s, u) =
     (if Shorthand f = [] \<and> Longhand f = [] then usageLoop env p (i + 1) fl (s, u)
      else
        usageLoop env p (i + 1) fl
          (s @ (if UsageValue f \<noteq> [] then '' ['' @ compound f @ ''='' @ UsageValue f @ '']''
                else '' ['' @ compound f @ '']'')
             @ (if (i + 1) mod 4 = 0 then [CHR 0x0A] @ fmtWidth env (int p) [] else []),
           u @ fmtWidth env (int (length (compound f)) + 4) (compound f)
             @ fmtWidth env (int (length (Usage f)) - int (length (compound f)) + 16) (Usage f)
             @ [CHR 0x0A]))"

text \<open>The synopsis \<^verbatim>\<open>s.String()\<close> and the whole text \<^verbatim>\<open>usageFn\<close> writes to the output
  sink of the flag set.\<close>

definition synopsis :: "'c env \<Rightarrow> flagInfo list \<Rightarrow> string \<Rightarrow> string" where
  "synopsis env fl name =
     fst (usageLoop env (length (''usage: '' @ name)) 0 fl (''usage: '' @ name, []))"

definition usageFn :: "'c env \<Rightarrow> 'c world \<Rightarrow> nat \<Rightarrow> string \<Rightarrow> string" where
  "usageFn env w fs name =
     (case usageLoop env (length (''usage: '' @ name)) 0 (sliceElems w (flags (fsets w fs)))
             (''usage: '' @ name, []) of
        (s, u) \<Rightarrow> s @ [CHR 0x0A] @ u)"

definition FlagSet_Usage :: "'c env \<Rightarrow> 'c world \<Rightarrow> nat \<Rightarrow> string" where
  "FlagSet_Usage env w fs = usageFn env w fs (fsName (stdsets w (std (fsets w fs))))"

section \<open>Notions used in the statements\<close>

text \<open>The kind of variable \<^verbatim>\<open>defineFlag\<close> binds for a default value, and whether the
  definition gets past the type assertion of \<^verbatim>\<open>valueVar\<close>.\<close>

definition kindOf :: "'c val \<Rightarrow> kind" where
  "kindOf v =
     (case v of
        VBool _ \<Rightarrow> KBool | VString _ \<Rightarrow> KString | VInt _ \<Rightarrow> KInt | VInt64 _ \<Rightarrow> KInt64
      | VUint _ \<Rightarrow> KUint | VUint64 _ \<Rightarrow> KUint64 | VFloat64 _ \<Rightarrow> KFloat64
      | VDuration _ \<Rightarrow> KDuration | VCustom _ \<Rightarrow> KCustom | VNil \<Rightarrow> KCustom)"

definition accepted :: "'c env \<Rightarrow> 'c val \<Rightarrow> bool" where
  "accepted env v = (case v of VCustom c \<Rightarrow> customValue env c | _ \<Rightarrow> True)"

text \<open>The descriptors of a registry, and a read through the variable bound to an
  identifier of a registry.\<close>

definition descriptors :: "'c world \<Rightarrow> nat \<Rightarrow> flagInfo list" where
  "descriptors w fs = sliceElems w (flags (fsets w fs))"

definition readFlag :: "'c world \<Rightarrow> nat \<Rightarrow> string \<Rightarrow> 'c val option" where
  "readFlag w fs ident =
     map_option (\<lambda>f. cells w (snd (FValue f))) (FlagSet_Lookup w (std (fsets w fs)) ident)"

text \<open>Every variable a flag is bound to has been allocated.\<close>

definition cellsAllocated :: "'c world \<Rightarrow> bool" where
  "cellsAllocated w =
     (\<forall>q n f. formal (stdsets w q) n = Some f \<longrightarrow> snd (FValue f) < ncells w)"

text \<open>An environment to run examples in: numeric decoders that reject every token, a
  user type whose \<^verbatim>\<open>Set\<close> keeps the value, capacity doubling, one rune per byte.\<close>

definition plainEnv :: "unit env" where
  "plainEnv =
     \<lparr>parseInt = (\<lambda>_. (0, False)), parseInt64 = (\<lambda>_. (0, False)),
      parseUint = (\<lambda>_. (0, False)), parseUint64 = (\<lambda>_. (0, False)),
      parseFloat = (\<lambda>_. (0, False)), parseDuration = (\<lambda>_. (0, False)),
      customValue = (\<lambda>_. True), customSet = (\<lambda>c _. (c, True)),
      customIsBoolFlag = (\<lambda>_. False), customKindBool = (\<lambda>_. False),
      growCap = (\<lambda>c. 2 * c), runeCount = length\<rparr>"

text \<open>Proof notions: allocation of the variable behind \<^verbatim>\<open>&value\<close>, the two calls of
  \<^verbatim>\<open>Var\<close> that the typed helpers share, and the flag set after one successful
  \<^verbatim>\<open>Var\<close>.\<close>

definition alloc :: "'c world \<Rightarrow> 'c val \<Rightarrow> 'c world" where
  "alloc w v = w\<lparr>cells := (cells w)(ncells w := v), ncells := ncells w + 1\<rparr>"

definition bindNames ::
  "'c world \<Rightarrow> nat \<Rightarrow> kind \<Rightarrow> nat \<Rightarrow> string \<Rightarrow> string \<Rightarrow> string \<Rightarrow> 'c world \<times> nat res" where
  "bindNames w fs k a name shorthand usage =
     bindR (FlagSet_Var w (std (fsets w fs)) (k, a) name usage)
       (\<lambda>w1 _.
          if shorthand \<noteq> [] then
            bindR (FlagSet_Var w1 (std (fsets w1 fs)) (k, a) shorthand usage) (\<lambda>w2 _. (w2, Ok a))
          else (w1, Ok a))"

definition addFlag :: "'c world \<Rightarrow> nat \<Rightarrow> kind \<Rightarrow> nat \<Rightarrow> string \<Rightarrow> string \<Rightarrow> 'c world" where
  "addFlag w p k a name usage =
     w\<lparr>stdsets := (stdsets w)(p := (stdsets w p)\<lparr>formal :=
          (formal (stdsets w p))(name \<mapsto> \<lparr>FName = name, FUsage = usage, FValue = (k, a)\<rparr>)\<rparr>)\<rparr>"

section \<open>Example runs\<close>

text \<open>Two registries created one after the other, each given one flag.\<close>

definition twoSets_a :: "unit world \<times> nat" where
  "twoSets_a = NewFlagSet (fst (packageInit ''cmd'')) ''a'' ContinueOnError"

definition twoSets_b :: "unit world \<times> nat" where
  "twoSets_b = NewFlagSet (fst twoSets_a) ''b'' ContinueOnError"

definition twoSets_alpha :: "unit world" where
  "twoSets_alpha = fst (SetFlag plainEnv (fst twoSets_b) (snd twoSets_a) ''alpha'' [] (VBool False) [])"

definition twoSets_beta :: "unit world" where
  "twoSets_beta = fst (SetFlag plainEnv twoSets_alpha (snd twoSets_b) ''beta'' [] (VBool False) [])"

text \<open>The registry of the package's own test of \<^verbatim>\<open>args\<close>: unnamed, with a boolean flag
  \<^verbatim>\<open>bool\<close>/\<^verbatim>\<open>b\<close> and a text flag \<^verbatim>\<open>string\<close>/\<^verbatim>\<open>s\<close>.\<close>

definition testSet :: "unit world \<times> nat" where
  "testSet = NewFlagSet (fst (packageInit ''cmd'')) [] ContinueOnError"

definition testSet_bool :: "unit world \<times> nat option res" where
  "testSet_bool = SetFlag plainEnv (fst testSet) (snd testSet) ''bool'' ''b'' (VBool False) ''bool flag''"

definition testSet_string :: "unit world \<times> nat option res" where
  "testSet_string = SetFlag plainEnv (fst testSet_bool) (snd testSet) ''string'' ''s'' (VString []) ''string flag''"

text \<open>A descriptor without a value hint, as in the package's test of the usage text.\<close>

definition info :: "string \<Rightarrow> string \<Rightarrow> flagInfo" where
  "info l s = \<lparr>Longhand = l, Shorthand = s, UsageValue = [], Usage = ''Usage for '' @ s\<rparr>"

text \<open>A registry named \<^verbatim>\<open>sub\<close> with a boolean flag \<^verbatim>\<open>x\<close>, beside the default registry.\<close>

definition subSet :: "unit world \<times> nat" where
  "subSet = NewFlagSet (fst (packageInit ''cmd'')) ''sub'' ContinueOnError"

definition subSet_x :: "unit world \<times> nat option res" where
  "subSet_x = SetFlag plainEnv (fst subSet) (snd subSet) ''x'' [] (VBool False) []"

definition subSet_default :: nat where
  "subSet_default = snd (packageInit ''cmd'' :: unit world \<times> nat)"

section \<open>The usage-value hint\<close>

lemma extractLoop_skip:
  "CHR 0x60 \<notin> set a \<Longrightarrow>
   extractLoop (p @ a @ r) (length p) pos = extractLoop (p @ a @ r) (length p + length a) pos"
proof (induction a arbitrary: p)
  case Nil
  then show ?case by simp
next
  case (Cons x a)
  have ne: "x \<noteq> CHR 0x60" and na: "CHR 0x60 \<notin> set a" using Cons.prems by auto
  have "extractLoop (p @ (x # a) @ r) (length p) pos
        = extractLoop (p @ (x # a) @ r) (length p + 1) pos"
    using ne by (subst extractLoop.simps) (simp add: nth_append)
  also have "\<dots> = extractLoop ((p @ [x]) @ a @ r) (length (p @ [x])) pos" by simp
  also have "\<dots> = extractLoop ((p @ [x]) @ a @ r) (length (p @ [x]) + length a) pos"
    by (rule Cons.IH [OF na])
  finally show ?case by simp
qed

lemma extractLoop_end: "extractLoop s (length s) pos = []"
  by (subst extractLoop.simps) simp

lemma extractLoop_first:
  "extractLoop (p @ CHR 0x60 # r) (length p) 0
   = extractLoop (p @ CHR 0x60 # r) (length p + 1) (length p + 1)"
  by (subst extractLoop.simps) (simp add: nth_append)

lemma extractLoop_second:
  "0 < pos \<Longrightarrow> extractLoop (p @ CHR 0x60 # r) (length p) pos
   = take (length p - pos) (drop pos (p @ CHR 0x60 # r))"
  by (subst extractLoop.simps) (simp add: nth_append)

lemma extractUsageValue_none:
  "CHR 0x60 \<notin> set s \<Longrightarrow> extractUsageValue s = []"
  using extractLoop_skip [of s "[]" "[]" 0] by (simp add: extractUsageValue_def extractLoop_end)

lemma extractUsageValue_one:
  assumes "CHR 0x60 \<notin> set a" "CHR 0x60 \<notin> set b"
  shows "extractUsageValue (a @ CHR 0x60 # b) = []"
proof -
  let ?s = "a @ CHR 0x60 # b"
  have "extractUsageValue ?s = extractLoop ?s (length a) 0"
    using extractLoop_skip [OF assms(1), of "[]" "CHR 0x60 # b" 0] by (simp add: extractUsageValue_def)
  also have "\<dots> = extractLoop ?s (length a + 1) (length a + 1)" by (rule extractLoop_first)
  also have "\<dots> = extractLoop ((a @ [CHR 0x60]) @ b @ []) (length (a @ [CHR 0x60])) (length a + 1)" by simp
  also have "\<dots> = extractLoop ((a @ [CHR 0x60]) @ b @ []) (length (a @ [CHR 0x60]) + length b) (length a + 1)"
    by (rule extractLoop_skip [OF assms(2)])
  also have "\<dots> = []" using extractLoop_end [of ?s "length a + 1"] by simp
  finally show ?thesis .
qed

lemma extractUsageValue_two:
  assumes "CHR 0x60 \<notin> set a" "CHR 0x60 \<notin> set b"
  shows "extractUsageValue (a @ CHR 0x60 # b @ CHR 0x60 # c) = b"
proof -
  let ?s = "a @ CHR 0x60 # b @ CHR 0x60 # c"
  have "extractUsageValue ?s = extractLoop ?s (length a) 0"
    using extractLoop_skip [OF assms(1), of "[]" "CHR 0x60 # b @ CHR 0x60 # c" 0] by (simp add: extractUsageValue_def)
  also have "\<dots> = extractLoop ?s (length a + 1) (length a + 1)" by (rule extractLoop_first)
  also have "\<dots> = extractLoop ((a @ [CHR 0x60]) @ b @ (CHR 0x60 # c)) (length (a @ [CHR 0x60])) (length a + 1)" by simp
  also have "\<dots> = extractLoop ((a @ [CHR 0x60]) @ b @ (CHR 0x60 # c)) (length (a @ [CHR 0x60]) + length b) (length a + 1)"
    by (rule extractLoop_skip [OF assms(2)])
  also have "\<dots> = extractLoop ((a @ CHR 0x60 # b) @ CHR 0x60 # c) (length (a @ CHR 0x60 # b)) (length a + 1)" by simp
  also have "\<dots> = take (length (a @ CHR 0x60 # b) - (length a + 1)) (drop (length a + 1) ((a @ CHR 0x60 # b) @ CHR 0x60 # c))"
    by (rule extractLoop_second) simp
  also have "\<dots> = b" by simp
  finally show ?thesis .
qed

lemma few_backticks:
  assumes "count_list s (CHR 0x60) < 2"
  shows "CHR 0x60 \<notin> set s \<or> (\<exists>a b. s = a @ CHR 0x60 # b \<and> CHR 0x60 \<notin> set a \<and> CHR 0x60 \<notin> set b)"
proof (cases "CHR 0x60 \<in> set s")
  case False
  then show ?thesis by simp
next
  case True
  then obtain a b where s: "s = a @ CHR 0x60 # b" and a: "CHR 0x60 \<notin> set a"
    by (meson split_list_first)
  have "count_list b (CHR 0x60) = 0" using assms s by simp
  then have "CHR 0x60 \<notin> set b" by (simp add: count_list_0_iff)
  with s a show ?thesis by blast
qed

text \<open>
  Claim C10. For every usage string, the extracted hint is the text strictly between the
  first and the second backtick, and it is empty when the string has fewer than two
  backticks.
\<close>

theorem extractUsageValue_spec:
  "(count_list s (CHR 0x60) < 2 \<longrightarrow> extractUsageValue s = []) \<and>
   (\<forall>a b c. s = a @ CHR 0x60 # b @ CHR 0x60 # c \<and> CHR 0x60 \<notin> set a \<and> CHR 0x60 \<notin> set b
       \<longrightarrow> extractUsageValue s = b)"
  using few_backticks [of s] extractUsageValue_none extractUsageValue_one extractUsageValue_two
  by blast

theorem extractUsageValue_spec_witness:
  "extractUsageValue ''Adjust with `bool` value'' = ''bool'' \<and> extractUsageValue ''one ` only'' = []"
proof -
  have a: "extractUsageValue ''Adjust with `bool` value'' = ''bool''"
    using extractUsageValue_spec [of "''Adjust with `bool` value''", THEN conjunct2, rule_format,
        of "''Adjust with ''" "''bool''" "'' value''"]
    by simp
  have b: "extractUsageValue ''one ` only'' = []"
    using extractUsageValue_spec [of "''one ` only''", THEN conjunct1] by simp
  from a b show ?thesis by simp
qed

section \<open>Definitions of flags: what they leave behind\<close>

lemma FlagSet_TypedVar_self:
  "FlagSet_TypedVar w p (k, a) name (cells w a) usage = FlagSet_Var w p (k, a) name usage"
  by (simp add: FlagSet_TypedVar_def)

lemma FlagSet_Var_frame:
  assumes "FlagSet_Var w p v name usage = (w', r)"
  shows "cells w' = cells w" "ncells w' = ncells w" "fsets w' = fsets w" "arrays w' = arrays w"
    "flagSets w' = flagSets w" "narrays w' = narrays w" "nfsets w' = nfsets w"
  using assms by (auto simp: FlagSet_Var_def split: res.splits)

lemma typedVar_bindNames:
  "typedVar w fs k name sh v usage = bindNames (alloc w v) fs k (ncells w) name sh usage"
proof -
  have c: "cells (alloc w v) (ncells w) = v" by (simp add: alloc_def)
  have "\<And>w1 u. FlagSet_Var (alloc w v) (std (fsets (alloc w v) fs)) (k, ncells w) name usage = (w1, u)
      \<Longrightarrow> cells w1 (ncells w) = v"
    using FlagSet_Var_frame(1) c by metis
  then show ?thesis
    unfolding typedVar_def bindNames_def Let_def alloc_def [symmetric]
    by (auto simp: FlagSet_TypedVar_def bindR_def c fun_upd_idem  split: prod.splits res.splits)
qed

lemma valueVar_bindNames:
  "valueVar env w fs name sh c usage =
     (if customValue env c then bindNames (alloc w (VCustom c)) fs KCustom (ncells w) name sh usage
      else (alloc w (VCustom c), Panic NotAValue))"
  unfolding valueVar_def bindNames_def Let_def alloc_def [symmetric] by simp

lemma somePtr_Panic: "somePtr (w, Panic m) = (w, Panic m)"
  by (simp add: somePtr_def bindR_def)

lemma defineFlag_typed:
  assumes "v \<noteq> VNil"
  shows "defineFlag env w fs name sh v usage =
     (if accepted env v then
        somePtr (bindNames (alloc (defineUsage env w fs name (if name = sh then [] else sh) usage) v) fs
          (kindOf v) (ncells (defineUsage env w fs name (if name = sh then [] else sh) usage))
          name (if name = sh then [] else sh) usage)
      else (alloc (defineUsage env w fs name (if name = sh then [] else sh) usage) v, Panic NotAValue))"
  using assms
  by (cases v)
     (simp_all add: defineFlag_def Let_def boolVar_def stringVar_def intVar_def int64Var_def
        uintVar_def uint64Var_def float64Var_def durationVar_def typedVar_bindNames
        valueVar_bindNames accepted_def kindOf_def somePtr_Panic)

lemma defineFlag_nil:
  "defineFlag env w fs name sh VNil usage =
     (defineUsage env w fs name (if name = sh then [] else sh) usage, Ok None)"
  by (simp add: defineFlag_def Let_def)

lemma Var_cases:
  "Var f v name usage = Ok (f\<lparr>formal := (formal f)(name \<mapsto> \<lparr>FName = name, FUsage = usage, FValue = v\<rparr>)\<rparr>)
     \<and> name \<notin> dom (formal f)
   \<or> (\<exists>m. Var f v name usage = Panic m)"
  by (simp add: Var_def)

lemma Var_defined: "name \<in> dom (formal f) \<Longrightarrow> \<exists>m. Var f v name usage = Panic m"
  by (simp add: Var_def)

lemma FlagSet_Var_cases:
  "(FlagSet_Var w p v name usage =
      (w\<lparr>stdsets := (stdsets w)(p := (stdsets w p)\<lparr>formal := (formal (stdsets w p))(name \<mapsto>
           \<lparr>FName = name, FUsage = usage, FValue = v\<rparr>)\<rparr>)\<rparr>, Ok ())
     \<and> name \<notin> dom (formal (stdsets w p)))
   \<or> (\<exists>m. FlagSet_Var w p v name usage = (w, Panic m))"
  using Var_cases [of "stdsets w p" v name usage] by (auto simp: FlagSet_Var_def)

lemma FlagSet_Var_defined:
  "name \<in> dom (formal (stdsets w p)) \<Longrightarrow> \<exists>m. FlagSet_Var w p v name usage = (w, Panic m)"
  using Var_defined [of name "stdsets w p" v usage] by (auto simp: FlagSet_Var_def)

lemma addFlag_fields:
  "cells (addFlag w p k a name usage) = cells w"
  "ncells (addFlag w p k a name usage) = ncells w"
  "fsets (addFlag w p k a name usage) = fsets w"
  "arrays (addFlag w p k a name usage) = arrays w"
  "flagSets (addFlag w p k a name usage) = flagSets w"
  "formal (stdsets (addFlag w p k a name usage) p) =
     (formal (stdsets w p))(name \<mapsto> \<lparr>FName = name, FUsage = usage, FValue = (k, a)\<rparr>)"
  "q \<noteq> p \<Longrightarrow> stdsets (addFlag w p k a name usage) q = stdsets w q"
  by (simp_all add: addFlag_def)

lemma FlagSet_Var_addFlag:
  "(FlagSet_Var w p (k, a) name usage = (addFlag w p k a name usage, Ok ())
     \<and> name \<notin> dom (formal (stdsets w p)))
   \<or> (\<exists>m. FlagSet_Var w p (k, a) name usage = (w, Panic m))"
  using FlagSet_Var_cases [of w p "(k, a)" name usage] by (simp add: addFlag_def)

lemma bindNames_cases [consumes 0, case_names panic0 one panic1 two]:
  fixes w :: "'c world"
  assumes "\<And>m. bindNames w fs k a name sh usage = (w, Panic m) \<Longrightarrow> P"
    and "sh = [] \<Longrightarrow> name \<notin> dom (formal (stdsets w (std (fsets w fs)))) \<Longrightarrow>
         bindNames w fs k a name sh usage = (addFlag w (std (fsets w fs)) k a name usage, Ok a) \<Longrightarrow> P"
    and "\<And>m. sh \<noteq> [] \<Longrightarrow> name \<notin> dom (formal (stdsets w (std (fsets w fs)))) \<Longrightarrow>
         bindNames w fs k a name sh usage = (addFlag w (std (fsets w fs)) k a name usage, Panic m) \<Longrightarrow> P"
    and "sh \<noteq> [] \<Longrightarrow> sh \<noteq> name \<Longrightarrow> name \<notin> dom (formal (stdsets w (std (fsets w fs)))) \<Longrightarrow>
         sh \<notin> dom (formal (stdsets w (std (fsets w fs)))) \<Longrightarrow>
         bindNames w fs k a name sh usage =
           (addFlag (addFlag w (std (fsets w fs)) k a name usage) (std (fsets w fs)) k a sh usage, Ok a) \<Longrightarrow> P"
  shows P
proof -
  let ?p = "std (fsets w fs)"
  let ?w1 = "addFlag w ?p k a name usage"
  consider (p1) m where "FlagSet_Var w ?p (k, a) name usage = (w, Panic m)"
    | (ok1) "FlagSet_Var w ?p (k, a) name usage = (?w1, Ok ())" "name \<notin> dom (formal (stdsets w ?p))"
    using FlagSet_Var_addFlag [of w ?p k a name usage] by blast
  then show ?thesis
  proof cases
    case p1
    then have "bindNames w fs k a name sh usage = (w, Panic m)" by (simp add: bindNames_def bindR_def)
    then show ?thesis by (rule assms(1))
  next
    case ok1
    show ?thesis
    proof (cases "sh = []")
      case True
      with ok1 have "bindNames w fs k a name sh usage = (?w1, Ok a)" by (simp add: bindNames_def bindR_def)
      with True ok1(2) show ?thesis by (rule assms(2))
    next
      case False
      have fs1: "std (fsets ?w1 fs) = ?p" by (simp add: addFlag_fields)
      consider (p2) m where "FlagSet_Var ?w1 ?p (k, a) sh usage = (?w1, Panic m)"
        | (ok2) "FlagSet_Var ?w1 ?p (k, a) sh usage = (addFlag ?w1 ?p k a sh usage, Ok ())"
            "sh \<notin> dom (formal (stdsets ?w1 ?p))"
        using FlagSet_Var_addFlag [of ?w1 ?p k a sh usage] by blast
      then show ?thesis
      proof cases
        case p2
        with ok1 False fs1 have "bindNames w fs k a name sh usage = (?w1, Panic m)"
          by (simp add: bindNames_def bindR_def)
        with False ok1(2) show ?thesis by (rule assms(3))
      next
        case ok2
        from ok2(2) have n: "sh \<noteq> name" "sh \<notin> dom (formal (stdsets w ?p))"
          by (auto simp: addFlag_fields)
        have "bindNames w fs k a name sh usage = (addFlag ?w1 ?p k a sh usage, Ok a)"
          using ok1 ok2 False fs1 by (simp add: bindNames_def bindR_def)
        with False n ok1(2) show ?thesis by (intro assms(4)) 
      qed
    qed
  qed
qed

lemma bindNames_frame:
  "cells (fst (bindNames w fs k a name sh usage)) = cells w"
  "ncells (fst (bindNames w fs k a name sh usage)) = ncells w"
  "fsets (fst (bindNames w fs k a name sh usage)) = fsets w"
  "arrays (fst (bindNames w fs k a name sh usage)) = arrays w"
  "flagSets (fst (bindNames w fs k a name sh usage)) = flagSets w"
  by (cases rule: bindNames_cases [of w fs k a name sh usage]; simp add: addFlag_fields)+

lemma bindNames_defined:
  assumes "ident \<in> dom (formal (stdsets w (std (fsets w fs))))"
    and "ident = name \<or> (ident = sh \<and> sh \<noteq> [])"
  shows "\<exists>w' m. bindNames w fs k a name sh usage = (w', Panic m)"
proof (cases rule: bindNames_cases [of w fs k a name sh usage])
  case (panic0 m)
  then show ?thesis by blast
next
  case one
  with assms show ?thesis by blast
next
  case (panic1 m)
  then show ?thesis by blast
next
  case two
  with assms show ?thesis by blast
qed

lemma bindNames_Ok:
  assumes "bindNames w fs k a name sh usage = (w', Ok r)"
  shows "r = a"
    and "formal (stdsets w' (std (fsets w fs))) name = Some \<lparr>FName = name, FUsage = usage, FValue = (k, a)\<rparr>"
    and "sh \<noteq> [] \<Longrightarrow>
         formal (stdsets w' (std (fsets w fs))) sh = Some \<lparr>FName = sh, FUsage = usage, FValue = (k, a)\<rparr>"
proof -
  have "r = a \<and>
    formal (stdsets w' (std (fsets w fs))) name = Some \<lparr>FName = name, FUsage = usage, FValue = (k, a)\<rparr> \<and>
    (sh = [] \<or> formal (stdsets w' (std (fsets w fs))) sh = Some \<lparr>FName = sh, FUsage = usage, FValue = (k, a)\<rparr>)"
  proof (cases rule: bindNames_cases [of w fs k a name sh usage])
    case (panic0 m)
    with assms show ?thesis by simp
  next
    case one
    with assms show ?thesis by (auto simp: addFlag_fields)
  next
    case (panic1 m)
    with assms show ?thesis by simp
  next
    case two
    with assms show ?thesis by (auto simp: addFlag_fields)
  qed
  then show "r = a"
    and "formal (stdsets w' (std (fsets w fs))) name = Some \<lparr>FName = name, FUsage = usage, FValue = (k, a)\<rparr>"
    and "sh \<noteq> [] \<Longrightarrow>
         formal (stdsets w' (std (fsets w fs))) sh = Some \<lparr>FName = sh, FUsage = usage, FValue = (k, a)\<rparr>"
    by auto
qed

lemma fst_somePtr: "fst (somePtr m) = fst m"
  by (cases m) (auto simp: somePtr_def bindR_def split: res.splits)

lemma somePtr_Ok: "somePtr m = (w', Ok r) \<Longrightarrow> \<exists>a. m = (w', Ok a) \<and> r = Some a"
  by (cases m) (auto simp: somePtr_def bindR_def split: res.splits)

lemma somePtr_Panic_iff: "m = (w', Panic x) \<Longrightarrow> somePtr m = (w', Panic x)"
  by (simp add: somePtr_def bindR_def)

text \<open>What the descriptor entry leaves behind.\<close>

lemma appendInfo_elems:
  "appendInfo env w s x = (w', s') \<Longrightarrow> sliceElems w' s' = sliceElems w s @ [x]"
  by (auto simp: appendInfo_def sliceElems_def split: if_splits)

lemma appendInfo_frame:
  assumes "appendInfo env w s x = (w', s')"
  shows "cells w' = cells w" "ncells w' = ncells w" "stdsets w' = stdsets w"
    "flagSets w' = flagSets w" "fsets w' = fsets w"
  using assms by (auto simp: appendInfo_def split: if_splits)

lemma defineUsage_frame:
  "cells (defineUsage env w fs name sh usage) = cells w"
  "ncells (defineUsage env w fs name sh usage) = ncells w"
  "stdsets (defineUsage env w fs name sh usage) = stdsets w"
  "flagSets (defineUsage env w fs name sh usage) = flagSets w"
  "std (fsets (defineUsage env w fs name sh usage) x) = std (fsets w x)"
proof -
  obtain w' sl where a: "appendInfo env w (flags (fsets w fs))
      \<lparr>Longhand = (if length name = 1 then [] else name),
       Shorthand = (if length name = 1 then name else sh),
       UsageValue = extractUsageValue usage, Usage = usage\<rparr> = (w', sl)"
    by (cases "appendInfo env w (flags (fsets w fs))
      \<lparr>Longhand = (if length name = 1 then [] else name),
       Shorthand = (if length name = 1 then name else sh),
       UsageValue = extractUsageValue usage, Usage = usage\<rparr>")
  have d: "defineUsage env w fs name sh usage = w'\<lparr>fsets := (fsets w')(fs := (fsets w' fs)\<lparr>flags := sl\<rparr>)\<rparr>"
    using a by (simp add: defineUsage_def Let_def)
  note f = appendInfo_frame [OF a]
  show "cells (defineUsage env w fs name sh usage) = cells w" by (simp add: d f)
  show "ncells (defineUsage env w fs name sh usage) = ncells w" by (simp add: d f)
  show "stdsets (defineUsage env w fs name sh usage) = stdsets w" by (simp add: d f)
  show "flagSets (defineUsage env w fs name sh usage) = flagSets w" by (simp add: d f)
  show "std (fsets (defineUsage env w fs name sh usage) x) = std (fsets w x)" by (simp add: d f)
qed

lemma defineUsage_descriptors:
  "descriptors (defineUsage env w fs name sh usage) fs =
     descriptors w fs @ [\<lparr>Longhand = (if length name = 1 then [] else name),
                          Shorthand = (if length name = 1 then name else sh),
                          UsageValue = extractUsageValue usage, Usage = usage\<rparr>]"
proof -
  let ?x = "\<lparr>Longhand = (if length name = 1 then [] else name),
       Shorthand = (if length name = 1 then name else sh),
       UsageValue = extractUsageValue usage, Usage = usage\<rparr>"
  obtain w' sl where a: "appendInfo env w (flags (fsets w fs)) ?x = (w', sl)"
    by (cases "appendInfo env w (flags (fsets w fs)) ?x")
  have d: "defineUsage env w fs name sh usage = w'\<lparr>fsets := (fsets w')(fs := (fsets w' fs)\<lparr>flags := sl\<rparr>)\<rparr>"
    using a by (simp add: defineUsage_def Let_def)
  have "descriptors (defineUsage env w fs name sh usage) fs = sliceElems w' sl"
    by (simp add: d descriptors_def sliceElems_def)
  also have "\<dots> = sliceElems w (flags (fsets w fs)) @ [?x]" by (rule appendInfo_elems [OF a])
  finally show ?thesis by (simp add: descriptors_def)
qed

lemma descriptors_cong:
  "arrays w' = arrays w \<Longrightarrow> fsets w' = fsets w \<Longrightarrow> descriptors w' x = descriptors w x"
  by (simp add: descriptors_def sliceElems_def)

lemma alloc_fields:
  "cells (alloc w v) = (cells w)(ncells w := v)"
  "ncells (alloc w v) = ncells w + 1"
  "fsets (alloc w v) = fsets w"
  "arrays (alloc w v) = arrays w"
  "flagSets (alloc w v) = flagSets w"
  "stdsets (alloc w v) = stdsets w"
  by (simp_all add: alloc_def)

lemma defineFlag_descriptors:
  "descriptors (fst (defineFlag env w fs name sh v usage)) x =
   descriptors (defineUsage env w fs name (if name = sh then [] else sh) usage) x"
proof (cases "v = VNil")
  case True
  then show ?thesis by (simp add: defineFlag_nil)
next
  case False
  show ?thesis
    by (rule descriptors_cong)
       (simp_all add: defineFlag_typed [OF False] fst_somePtr bindNames_frame alloc_fields)
qed

text \<open>
  Claim C8. For every definition call whose name has length exactly 1, the descriptor
  appended to the registry has the name as its short identifier and an empty long
  identifier, and a shorthand supplied beside it does not appear in the descriptor.
\<close>

theorem one_char_name_descriptor:
  assumes "length name = 1"
  shows "descriptors (fst (defineFlag env w fs name sh v usage)) fs =
         descriptors w fs @ [\<lparr>Longhand = [], Shorthand = name,
                               UsageValue = extractUsageValue usage, Usage = usage\<rparr>]"
  using assms by (simp add: defineFlag_descriptors defineUsage_descriptors)

theorem one_char_name_descriptor_witness:
  "length ''n'' = 1 \<and>
   descriptors
     (fst (defineFlag plainEnv (fst (NewFlagSet emptyWorld [] ContinueOnError)) 0
        ''n'' ''x'' (VInt 1234) ''help message for flag n'')) 0 =
   [\<lparr>Longhand = [], Shorthand = ''n'', UsageValue = [], Usage = ''help message for flag n''\<rparr>]"
proof -
  have d: "descriptors (fst (NewFlagSet (emptyWorld :: unit world) [] ContinueOnError)) 0 = []"
    by (simp add: descriptors_def sliceElems_def NewFlagSet_def Let_def emptyWorld_def
          flagInfoSlice_def)
  have u: "extractUsageValue ''help message for flag n'' = []"
    by (simp add: extractUsageValue_def extractLoop.simps)
  show ?thesis
    using one_char_name_descriptor [of "''n''" plainEnv
        "fst (NewFlagSet (emptyWorld :: unit world) [] ContinueOnError)" 0 "''x''" "VInt 1234"
        "''help message for flag n''"]
    by (simp add: d u)
qed

section \<open>Evaluation of the example runs\<close>

lemmas run_defs =
  packageInit_def NewFlagSet_def emptyWorld_def flagInfoSlice_def Let_def SetFlag_def defineFlag_def
  defineUsage_def appendInfo_def boolVar_def stringVar_def typedVar_def FlagSet_TypedVar_def
  FlagSet_Var_def Var_def bindR_def somePtr_def descriptors_def sliceElems_def
  extractUsageValue_def extractLoop.simps plainEnv_def

lemmas parse_defs =
  parse_def FlagSet_Parse_def stdParse_def parseLoop.simps parseOne_def tokenFlag_def splitEq_def
  setValue_def ParseBool_def isBoolFlag_def

lemmas args_defs =
  args_def argsLoop.simps FlagSet_Args_def FlagSet_Lookup_def removeDashes_def kindIsBool_def

text \<open>
  Claim C2. Defining a flag on one registry must leave the descriptors of every other
  registry as they were. Here the registry \<^verbatim>\<open>a\<close> holds the descriptor of \<^verbatim>\<open>alpha\<close>; after
  the registry \<^verbatim>\<open>b\<close> is given the flag \<^verbatim>\<open>beta\<close>, the descriptors of \<^verbatim>\<open>a\<close> show \<^verbatim>\<open>beta\<close>:
  every registry starts from the one slice \<^verbatim>\<open>flagInfoSlice\<close> of capacity 32, and
  \<^verbatim>\<open>append\<close> writes into the backing array they share.
\<close>

theorem shared_backing_array:
  "descriptors twoSets_alpha (snd twoSets_a) =
     [\<lparr>Longhand = ''alpha'', Shorthand = [], UsageValue = [], Usage = []\<rparr>] \<and>
   descriptors twoSets_beta (snd twoSets_a) =
     [\<lparr>Longhand = ''beta'', Shorthand = [], UsageValue = [], Usage = []\<rparr>]"
  by (simp add: twoSets_a_def twoSets_b_def twoSets_alpha_def twoSets_beta_def run_defs)

text \<open>
  Claim C3. \<^verbatim>\<open>args\<close> must return for every list of leftover tokens and keep every empty
  token. On the leftover tokens \<^verbatim>\<open>["", "x"]\<close> (and \<^verbatim>\<open>["a", "", "x"]\<close> through \<^verbatim>\<open>parse\<close>)
  it panics instead: \<^verbatim>\<open>args[i-1][0]\<close> indexes the empty token before \<^verbatim>\<open>x\<close>.
\<close>

theorem args_panics_after_empty_token:
  "snd (FlagSet_Parse plainEnv (fst testSet_string) (std (fsets (fst testSet_string) (snd testSet)))
          [[], ''x'']) = Ok None \<and>
   args plainEnv
     (fst (FlagSet_Parse plainEnv (fst testSet_string) (std (fsets (fst testSet_string) (snd testSet)))
          [[], ''x''])) (snd testSet) = Panic IndexOutOfRange \<and>
   snd (parse plainEnv (fst testSet_string) (snd testSet) [''a'', [], ''x'']) = Ok None \<and>
   args plainEnv (fst (parse plainEnv (fst testSet_string) (snd testSet) [''a'', [], ''x'']))
     (snd testSet) = Panic IndexOutOfRange"
  by (simp add: testSet_def testSet_bool_def testSet_string_def run_defs parse_defs args_defs)

text \<open>
  Claim C9. The synopsis must wrap after every fourth bracketed group that it emits, also
  when placeholders are skipped. With one placeholder before four flags the wrap comes
  after the third group and none after the fourth: the test \<^verbatim>\<open>(i+1)%4\<close> counts the
  skipped entry.
\<close>

theorem synopsis_wraps_after_third_group:
  "synopsis plainEnv
     [zeroInfo, info ''aa'' ''a'', info ''bb'' ''b'', info ''cc'' ''c'', info ''dd'' ''d''] ''test'' =
   ''usage: test [-a --aa] [-b --bb] [-c --cc]'' @ [CHR 0x0A] @ replicate 11 (CHR '' '') @ '' [-d --dd]''"
  by (simp add: synopsis_def zeroInfo_def info_def compound_def fmtWidth_def plainEnv_def)

section \<open>Parsing and positional arguments: properties\<close>

text \<open>Parsing stops at a first token that is no flag marker and keeps every token.\<close>

lemma parseLoop_stops:
  assumes "fargs f = t # ts" "length t < 2 \<or> hd t \<noteq> CHR ''-''"
  shows "parseLoop env cs f = (cs, f, None)"
  using assms by (subst parseLoop.simps) (simp add: parseOne_def)

lemma FlagSet_Parse_stops:
  assumes "length t < 2 \<or> hd t \<noteq> CHR ''-''"
  shows "FlagSet_Parse env w p (t # ts) =
     (w\<lparr>stdsets := (stdsets w)(p := (stdsets w p)\<lparr>fargs := t # ts, parsed := True\<rparr>)\<rparr>, Ok None)"
proof -
  have "parseLoop env (cells w) ((stdsets w p)\<lparr>fargs := t # ts, parsed := True\<rparr>) =
      (cells w, (stdsets w p)\<lparr>fargs := t # ts, parsed := True\<rparr>, None)"
    by (rule parseLoop_stops [OF _ assms]) simp
  then show ?thesis by (simp add: FlagSet_Parse_def stdParse_def)
qed

text \<open>
  Claim C4. With a boolean flag \<^verbatim>\<open>bool\<close> and a text flag \<^verbatim>\<open>s\<close> registered, parsing
  \<^verbatim>\<open>["arg0", "--bool", "arg1", "-s", "string", "arg2"]\<close> and extracting the positional
  arguments yields exactly \<^verbatim>\<open>["arg0", "arg1", "arg2"]\<close>: for the registry's own
  \<^verbatim>\<open>Parse\<close>, and for \<^verbatim>\<open>parse\<close> when \<^verbatim>\<open>arg0\<close> names no registry.
\<close>

theorem positional_example:
  assumes b: "FlagSet_Lookup w (std (fsets w fs)) ''bool'' = Some fb" "fst (FValue fb) = KBool"
    and s: "FlagSet_Lookup w (std (fsets w fs)) ''s'' = Some fstr" "fst (FValue fstr) = KString"
  shows "snd (FlagSet_Parse env w (std (fsets w fs))
            [''arg0'', ''--bool'', ''arg1'', ''-s'', ''string'', ''arg2'']) = Ok None \<and>
         args env (fst (FlagSet_Parse env w (std (fsets w fs))
            [''arg0'', ''--bool'', ''arg1'', ''-s'', ''string'', ''arg2''])) fs
           = Ok [''arg0'', ''arg1'', ''arg2''] \<and>
         (flagSets w ''arg0'' = None \<longrightarrow>
            snd (parse env w fs [''arg0'', ''--bool'', ''arg1'', ''-s'', ''string'', ''arg2'']) = Ok None \<and>
            args env (fst (parse env w fs [''arg0'', ''--bool'', ''arg1'', ''-s'', ''string'', ''arg2''])) fs
              = Ok [''arg0'', ''arg1'', ''arg2''])"
proof -
  let ?toks = "[''arg0'', ''--bool'', ''arg1'', ''-s'', ''string'', ''arg2'']"
  let ?p = "std (fsets w fs)"
  let ?w' = "w\<lparr>stdsets := (stdsets w)(?p := (stdsets w ?p)\<lparr>fargs := ?toks, parsed := True\<rparr>)\<rparr>"
  have P: "FlagSet_Parse env w ?p ?toks = (?w', Ok None)"
    by (rule FlagSet_Parse_stops) simp
  have fb: "formal (stdsets w ?p) ''bool'' = Some fb" and fs': "formal (stdsets w ?p) ''s'' = Some fstr"
    using b(1) s(1) by (simp_all add: FlagSet_Lookup_def)
  have A: "args env ?w' fs = Ok [''arg0'', ''arg1'', ''arg2'']"
    using fb fs' b(2) s(2)
    by (simp add: args_def argsLoop.simps FlagSet_Args_def FlagSet_Lookup_def removeDashes_def
          kindIsBool_def)
  have F: "flagSets w ''arg0'' = None \<Longrightarrow> parse env w fs ?toks = FlagSet_Parse env w ?p ?toks"
    by (simp add: parse_def)
  show ?thesis using P A F by simp
qed

theorem positional_example_witness:
  "snd testSet_string = Ok (Some 1) \<and>
   flagSets (fst testSet_string) ''arg0'' = None \<and>
   args plainEnv
     (fst (parse plainEnv (fst testSet_string) (snd testSet)
        [''arg0'', ''--bool'', ''arg1'', ''-s'', ''string'', ''arg2''])) (snd testSet)
     = Ok [''arg0'', ''arg1'', ''arg2'']"
proof -
  have 1: "snd testSet_string = Ok (Some 1)"
    by (simp add: testSet_def testSet_bool_def testSet_string_def run_defs)
  have 2: "flagSets (fst testSet_string) ''arg0'' = None"
    by (simp add: testSet_def testSet_bool_def testSet_string_def run_defs)
  have 3: "FlagSet_Lookup (fst testSet_string) (std (fsets (fst testSet_string) (snd testSet))) ''bool''
      = Some \<lparr>FName = ''bool'', FUsage = ''bool flag'', FValue = (KBool, 0)\<rparr>"
    by (simp add: testSet_def testSet_bool_def testSet_string_def run_defs FlagSet_Lookup_def)
  have 4: "FlagSet_Lookup (fst testSet_string) (std (fsets (fst testSet_string) (snd testSet))) ''s''
      = Some \<lparr>FName = ''s'', FUsage = ''string flag'', FValue = (KString, 1)\<rparr>"
    by (simp add: testSet_def testSet_bool_def testSet_string_def run_defs FlagSet_Lookup_def)
  show ?thesis
    using positional_example [OF 3 _ 4, of plainEnv] 1 2 by simp
qed

lemma NewFlagSet_recorded:
  "NewFlagSet w name eh = (w', q) \<Longrightarrow> flagSets w' name = Some (fsets w' q)"
  by (auto simp: NewFlagSet_def Let_def)

text \<open>
  Claim C5. When the token list has more than one token and its first token is the name of
  a registry recorded in \<^verbatim>\<open>flagSets\<close>, \<^verbatim>\<open>parse\<close> is the \<^verbatim>\<open>Parse\<close> of that registry on
  the tail of the list; otherwise it is the \<^verbatim>\<open>Parse\<close> of the given registry on the whole
  list.
\<close>

theorem parse_dispatch:
  "(1 < length toks \<and> flagSets w (hd toks) = Some f \<longrightarrow>
      parse env w fs toks = FlagSet_Parse env w (std f) (tl toks)) \<and>
   (\<not> (1 < length toks \<and> hd toks \<in> dom (flagSets w)) \<longrightarrow>
      parse env w fs toks = FlagSet_Parse env w (std (fsets w fs)) toks)"
  by (auto simp: parse_def split: option.splits)

theorem parse_dispatch_witness:
  "flagSets (fst subSet_x) ''sub'' = Some \<lparr>std = 1, flags = flagInfoSlice\<rparr> \<and>
   parse plainEnv (fst subSet_x) subSet_default [''sub'', ''-x''] =
     FlagSet_Parse plainEnv (fst subSet_x) 1 [''-x''] \<and>
   readFlag (fst (parse plainEnv (fst subSet_x) subSet_default [''sub'', ''-x'']))
     (snd subSet) ''x'' = Some (VBool True) \<and>
   parse plainEnv (fst subSet_x) subSet_default [''sub''] =
     FlagSet_Parse plainEnv (fst subSet_x) (std (fsets (fst subSet_x) subSet_default)) [''sub'']"
proof -
  have 1: "flagSets (fst subSet_x) ''sub'' = Some \<lparr>std = 1, flags = flagInfoSlice\<rparr>"
    by (simp add: subSet_def subSet_x_def run_defs)
  have 2: "parse plainEnv (fst subSet_x) subSet_default [''sub'', ''-x''] =
     FlagSet_Parse plainEnv (fst subSet_x) 1 [''-x'']"
    using parse_dispatch [of "[''sub'', ''-x'']" "fst subSet_x" "\<lparr>std = 1, flags = flagInfoSlice\<rparr>"
        plainEnv subSet_default, THEN conjunct1] 1
    by simp
  have 3: "readFlag (fst (FlagSet_Parse plainEnv (fst subSet_x) 1 [''-x''])) (snd subSet) ''x''
      = Some (VBool True)"
    by (simp add: subSet_def subSet_x_def subSet_default_def run_defs parse_defs readFlag_def FlagSet_Lookup_def)
  have 4: "parse plainEnv (fst subSet_x) subSet_default [''sub''] =
     FlagSet_Parse plainEnv (fst subSet_x) (std (fsets (fst subSet_x) subSet_default)) [''sub'']"
    using parse_dispatch [of "[''sub'']" "fst subSet_x" "\<lparr>std = 1, flags = flagInfoSlice\<rparr>"
        plainEnv subSet_default, THEN conjunct2]
    by simp
  show ?thesis using 1 2 3 4 by simp
qed

end
